theory Spec2Isabelle
  imports Complex_Main
begin

section \<open>Conventions of the embedding\<close>

text \<open>
  Python floats and the entries of floating-point tensors are modelled as HOL reals: the
  arithmetic is exact, rounding, overflow and NaN are not represented. What is proved below
  is structure (which operations are applied to which values, in which order, and which
  statement raises) and values that the floating-point computation reproduces exactly; a
  property that depends on how a float operation rounds or overflows is not expressed in
  this embedding. A 2-D tensor is the list of its rows, a 1-D tensor a list, an index tensor
  a list of naturals.

  A Python exception is a value: the class of the exception together with the line of the
  source file whose statement raises it.
\<close>

datatype exn =
    AssertionError
  | NotImplementedError
  | ValueError string
  | ZeroDivisionError
  | IndexError
  | RuntimeError

datatype error = Raised exn nat

type_synonym 'a result = "error + 'a"

definition ebind :: "'a result \<Rightarrow> ('a \<Rightarrow> 'b result) \<Rightarrow> 'b result" where
  "ebind m f = (case m of Inl e \<Rightarrow> Inl e | Inr v \<Rightarrow> f v)"

type_synonym tensor = "real list list"


section \<open>equiformer/gaussian\_rbf.py\<close>







text \<open>
  \<^verbatim>\<open>torch.nn.functional.softplus\<close> with its defaults \<^verbatim>\<open>beta = 1, threshold = 20\<close>:
  \<^verbatim>\<open>log(1 + exp(x))\<close>, and \<^verbatim>\<open>x\<close> itself above the threshold.
\<close>

definition softplus :: "real \<Rightarrow> real" where
  "softplus x = (if x > 20 then x else ln (1 + exp x))"






section \<open>Tensor operations used by block.py\<close>

text \<open>
  \<^verbatim>\<open>t[idx]\<close> and \<^verbatim>\<open>t.index_select(0, idx)\<close>: the rows of \<^verbatim>\<open>t\<close> at the positions
  \<^verbatim>\<open>idx\<close>; torch refuses a position outside the tensor. The first argument is the line of
  the statement, for the error.
\<close>

definition index_rows :: "nat \<Rightarrow> exn \<Rightarrow> tensor \<Rightarrow> nat list \<Rightarrow> tensor result" where
  "index_rows line e t idx =
     (if list_all (\<lambda>i. i < length t) idx then Inr (map (\<lambda>i. t ! i) idx)
      else Inl (Raised e line))"

text \<open>
  Entrywise \<^verbatim>\<open>a + b\<close> and \<^verbatim>\<open>a - b\<close> of two 2-D tensors of the same shape. Every sum
  and difference of block.py combines tensors that are built with the same shape; operands
  of different shapes are the error branch (torch's broadcasting of a dimension of size 1 is
  not modelled).
\<close>

definition tensor_add :: "nat \<Rightarrow> tensor \<Rightarrow> tensor \<Rightarrow> tensor result" where
  "tensor_add line a b =
     (if map length a = map length b then Inr (map2 (map2 (+)) a b)
      else Inl (Raised RuntimeError line))"

definition tensor_sub :: "nat \<Rightarrow> tensor \<Rightarrow> tensor \<Rightarrow> tensor result" where
  "tensor_sub line a b =
     (if map length a = map length b then Inr (map2 (map2 (-)) a b)
      else Inl (Raised RuntimeError line))"

text \<open>\<^verbatim>\<open>torch.zeros(1, d)\<close> and \<^verbatim>\<open>t.expand(n, d)\<close> of a tensor of shape \<^verbatim>\<open>(1, d)\<close>.\<close>

definition zeros_row :: "nat \<Rightarrow> tensor" where
  "zeros_row d = [replicate d 0]"

definition expand :: "nat \<Rightarrow> tensor \<Rightarrow> nat \<Rightarrow> nat \<Rightarrow> tensor result" where
  "expand line t n d =
     (case t of
        [row] \<Rightarrow> if length row = d then Inr (replicate n row) else Inl (Raised RuntimeError line)
      | _ \<Rightarrow> Inl (Raised RuntimeError line))"

text \<open>\<^verbatim>\<open>t.norm(dim=1, p=2)\<close>: the Euclidean length of every row.\<close>

definition row_norms :: "tensor \<Rightarrow> real list" where
  "row_norms t = map (\<lambda>r. sqrt (sum_list (map (\<lambda>v. v ^ 2) r))) t"




section \<open>block.py: the forward passes\<close>

text \<open>
  The modules of e3nn and of the equiformer package (layer norm, linear layers, tensor
  products, graph attention, drop path, dropout, spherical harmonics), and the connectivity
  and radial modules of \<^verbatim>\<open>diffusion_edf\<close>, are not part of the source under study. A
  constructed module is represented by the function its \<^verbatim>\<open>forward\<close> computes (for the
  random ones, at fixed random draws), and is a parameter of the model.
\<close>

record FeedForwardNetwork =
  fctp_1 :: "tensor \<Rightarrow> tensor \<Rightarrow> tensor"
  fctp_2 :: "tensor \<Rightarrow> tensor \<Rightarrow> tensor"
  ffn_proj_drop :: "(tensor \<Rightarrow> tensor) option"

text \<open>\<^verbatim>\<open>FeedForwardNetwork.forward\<close> (lines 49-55).\<close>

definition FeedForwardNetwork_forward :: "FeedForwardNetwork \<Rightarrow> tensor \<Rightarrow> tensor" where
  "FeedForwardNetwork_forward f node_input =
     (let node_attr = map (\<lambda>r. map (\<lambda>_. 1) (take 1 r)) node_input;
          node_output = fctp_1 f node_input node_attr;
          node_output = fctp_2 f node_output node_attr
      in case ffn_proj_drop f of
           None \<Rightarrow> node_output
         | Some dropout \<Rightarrow> dropout node_output)"

record EquiformerBlock =
  norm_1_src :: "tensor \<Rightarrow> tensor"
  norm_1_dst :: "tensor \<Rightarrow> tensor"
  linear_src :: "tensor \<Rightarrow> tensor"
  linear_dst :: "tensor \<Rightarrow> tensor"
  ga :: "tensor \<Rightarrow> nat list \<Rightarrow> tensor \<Rightarrow> tensor \<Rightarrow> nat \<Rightarrow> tensor"
  drop_path :: "(tensor \<Rightarrow> nat list \<Rightarrow> tensor) option"
  norm_2 :: "tensor \<Rightarrow> nat list \<Rightarrow> tensor"
  ffn :: FeedForwardNetwork

text \<open>
  Lines 137-143 of \<^verbatim>\<open>EquiformerBlock.forward\<close>, the value of \<^verbatim>\<open>message\<close>:
  \<^verbatim>\<open>
  message_src = self.norm_1_src(node_input_src)
  message_src = self.linear_src(node_input_src)
  message_dst = self.norm_1_dst(node_input_dst)
  message_dst = self.linear_dst(node_input_dst)
  message = message_src[edge_src] + message_dst[edge_dst]
  \<close>
\<close>

definition EquiformerBlock_message ::
  "EquiformerBlock \<Rightarrow> tensor \<Rightarrow> tensor \<Rightarrow> nat list \<Rightarrow> nat list \<Rightarrow> tensor result" where
  "EquiformerBlock_message blk node_input_src node_input_dst edge_src edge_dst =
     (let message_src = norm_1_src blk node_input_src;
          message_src = linear_src blk node_input_src;
          message_dst = norm_1_dst blk node_input_dst;
          message_dst = linear_dst blk node_input_dst
      in ebind (index_rows 143 IndexError message_src edge_src) (\<lambda>gathered_src.
         ebind (index_rows 143 IndexError message_dst edge_dst) (\<lambda>gathered_dst.
         tensor_add 143 gathered_src gathered_dst)))"

text \<open>\<^verbatim>\<open>self.drop_path(node_features, batch_dst)\<close> when \<^verbatim>\<open>self.drop_path is not None\<close>.\<close>

definition apply_drop_path :: "EquiformerBlock \<Rightarrow> tensor \<Rightarrow> nat list \<Rightarrow> tensor" where
  "apply_drop_path blk node_features batch_dst =
     (case drop_path blk of
        None \<Rightarrow> node_features
      | Some dp \<Rightarrow> dp node_features batch_dst)"

text \<open>\<^verbatim>\<open>EquiformerBlock.forward\<close> (lines 129-162).\<close>

definition EquiformerBlock_forward ::
  "EquiformerBlock \<Rightarrow> tensor \<Rightarrow> tensor \<Rightarrow> nat list \<Rightarrow> nat list \<Rightarrow> nat list \<Rightarrow> tensor \<Rightarrow> tensor
     \<Rightarrow> tensor result" where
  "EquiformerBlock_forward blk node_input_src node_input_dst batch_dst edge_src edge_dst
       edge_attr edge_scalars =
     ebind (EquiformerBlock_message blk node_input_src node_input_dst edge_src edge_dst)
       (\<lambda>message.
          let node_features = ga blk message edge_dst edge_attr edge_scalars (length node_input_dst);
              node_features = apply_drop_path blk node_features batch_dst
          in ebind (tensor_add 153 node_input_dst node_features) (\<lambda>node_output.
               let node_features = norm_2 blk node_output batch_dst;
                   node_features = FeedForwardNetwork_forward (ffn blk) node_features;
                   node_features = apply_drop_path blk node_features batch_dst
               in tensor_add 160 node_output node_features))"

text \<open>
  A constructed \<^verbatim>\<open>EdfExtractor\<close>, as \<^verbatim>\<open>forward\<close> uses it. A \<^verbatim>\<open>RadiusConnect\<close>
  maps \<^verbatim>\<open>(node_coord_src, batch_src, node_coord_dst, batch_dst)\<close> to
  \<^verbatim>\<open>(edge_src, edge_dst)\<close>; a radial layer maps the edge lengths to the edge scalars.
  \<^verbatim>\<open>zero_features\<close> is the buffer \<^verbatim>\<open>torch.zeros(1, self.emb_dim)\<close>.
\<close>

record EdfExtractor =
  self_n_scales :: nat
  emb_dim :: nat
  pre_connect :: "(tensor \<Rightarrow> nat list \<Rightarrow> tensor \<Rightarrow> nat list \<Rightarrow> nat list \<times> nat list) list"
  pre_radial :: "(real list \<Rightarrow> tensor) list"
  pre_layers :: "EquiformerBlock list"
  spherical_harmonics :: "tensor \<Rightarrow> tensor"
  proj :: "tensor \<Rightarrow> tensor"

definition zero_features :: "EdfExtractor \<Rightarrow> tensor" where
  "zero_features ex = zeros_row (emb_dim ex)"

text \<open>\<^verbatim>\<open>xs[n]\<close> on a Python list.\<close>

definition list_get :: "nat \<Rightarrow> 'a list \<Rightarrow> nat \<Rightarrow> 'a result" where
  "list_get line xs n = (if n < length xs then Inr (xs ! n) else Inl (Raised IndexError line))"

text \<open>
  The value that one iteration of the loop of \<^verbatim>\<open>EdfExtractor.forward\<close> adds to
  \<^verbatim>\<open>node_feature_dst\<close> (lines 562-578, the second operand of the sum): the output of
  the scale's Equiformer block on the scale's nodes as sources and on the queries, with
  zero features, as destinations.
\<close>

definition scale_output ::
  "EdfExtractor \<Rightarrow> tensor \<Rightarrow> nat list \<Rightarrow> tensor list \<Rightarrow> tensor list \<Rightarrow> nat list list
     \<Rightarrow> nat \<times> (tensor \<Rightarrow> nat list \<Rightarrow> tensor \<Rightarrow> nat list \<Rightarrow> nat list \<times> nat list)
            \<times> (real list \<Rightarrow> tensor) \<times> EquiformerBlock
     \<Rightarrow> tensor result" where
  "scale_output ex query_coord query_batch node_features node_coords node_batches it =
     (case it of (n, connect, radial, layers) \<Rightarrow>
        ebind (list_get 562 node_coords n) (\<lambda>coord_n.
        ebind (list_get 563 node_batches n) (\<lambda>batch_n.
        case connect coord_n batch_n query_coord query_batch of (edge_src, edge_dst) \<Rightarrow>
        ebind (index_rows 566 RuntimeError coord_n edge_src) (\<lambda>sel_src.
        ebind (index_rows 566 RuntimeError query_coord edge_dst) (\<lambda>sel_dst.
        ebind (tensor_sub 566 sel_src sel_dst) (\<lambda>edge_vec.
          let edge_attr = spherical_harmonics ex edge_vec;
              edge_length = row_norms edge_vec;
              edge_scalar = radial edge_length
          in ebind (list_get 572 node_features n) (\<lambda>feature_n.
             ebind (expand 573 (zero_features ex) (length query_coord) (emb_dim ex)) (\<lambda>zero_dst.
             EquiformerBlock_forward layers feature_n zero_dst query_batch
               edge_src edge_dst edge_attr edge_scalar))))))))"





section \<open>block.py: the constructors\<close>

text \<open>
  An \<^verbatim>\<open>o3.Irreps\<close> is a tuple of \<^verbatim>\<open>(mul, (l, p))\<close>; two of them are equal when the
  tuples are. \<^verbatim>\<open>Irreps.dim\<close> is the sum of \<^verbatim>\<open>mul * (2 * l + 1)\<close>.
\<close>

type_synonym irreps = "(nat \<times> nat \<times> int) list"

definition irreps_dim :: "irreps \<Rightarrow> int" where
  "irreps_dim irs = sum_list (map (\<lambda>(mul, l, p). int mul * (2 * int l + 1)) irs)"

text \<open>The argument \<^verbatim>\<open>irreps_mlp_mid: Union[o3.Irreps, int]\<close>.\<close>

datatype mlp_mid = MidIrreps irreps | MidFactor int

text \<open>
  The constructors of the modules that are not part of the source under study are taken to
  succeed; what the model keeps of such a module is the arguments it was constructed with.
\<close>

record RadiusConnect_config =
  rc_r :: real
  rc_offset :: "real option"
  rc_max_num_neighbors :: nat

record RadiusGraph_config =
  rgr_r :: real
  rgr_max_num_neighbors :: nat

record FpsPool_config =
  fps_ratio :: real
  fps_random_start :: bool
  fps_r :: real
  fps_max_num_neighbors :: nat

record RadialBasis_config =
  rb_num_basis :: int
  rb_cutoff :: real
  rb_offset :: "real option"
  rb_soft_cutoff :: "bool option"

record EquiformerBlock_args =
  eb_irreps_src :: irreps
  eb_irreps_dst :: irreps
  eb_irreps_edge_attr :: irreps
  eb_irreps_head :: irreps
  eb_num_heads :: int
  eb_fc_neurons :: "int list"
  eb_irreps_mlp_mid :: mlp_mid
  eb_attn_type :: string
  eb_alpha_drop :: real
  eb_proj_drop :: real
  eb_drop_path_rate :: real
  eb_src_bias :: bool
  eb_dst_bias :: bool

text \<open>
  What \<^verbatim>\<open>EquiformerBlock.__init__\<close> leaves in the object: its arguments, the embedding
  signature \<^verbatim>\<open>self.irreps_emb\<close>, and the rate of \<^verbatim>\<open>self.drop_path\<close> when there is one.
\<close>

record EquiformerBlock_config =
  ebc_args :: EquiformerBlock_args
  ebc_irreps_emb :: irreps
  ebc_drop_path :: "real option"

text \<open>\<^verbatim>\<open>EquiformerBlock.__init__\<close> (lines 79-127).\<close>

definition EquiformerBlock_init :: "EquiformerBlock_args \<Rightarrow> EquiformerBlock_config result" where
  "EquiformerBlock_init a =
     (let irreps_emb = eb_irreps_dst a in
      if \<not> (eb_num_heads a * irreps_dim (eb_irreps_head a) = irreps_dim irreps_emb)
      then Inl (Raised AssertionError 88)
      else if eb_attn_type a \<notin> set [''mlp'', ''linear'', ''dp'']
      then Inl (Raised (ValueError (''Unknown attention type: '' @ eb_attn_type a)) 102)
      else if eb_attn_type a = ''mlp''
      then Inr \<lparr> ebc_args = a,
                 ebc_irreps_emb = irreps_emb,
                 ebc_drop_path = (if eb_drop_path_rate a > 0 then Some (eb_drop_path_rate a)
                                  else None) \<rparr>
      else if eb_attn_type a = ''linear''
      then Inl (Raised NotImplementedError 114)
      else if eb_attn_type a = ''dp''
      then Inl (Raised NotImplementedError 116)
      else Inl (Raised (ValueError (''Unknown attention type: '' @ eb_attn_type a)) 118))"

record PoolingBlock_args =
  pb_irreps_src :: irreps
  pb_irreps_dst :: irreps
  pb_irreps_edge_attr :: irreps
  pb_irreps_head :: irreps
  pb_num_heads :: int
  pb_fc_neurons :: "int list"
  pb_pool_radius :: real
  pb_pool_ratio :: real
  pb_pool_method :: "string option"
  pb_deterministic :: bool
  pb_irreps_mlp_mid :: mlp_mid
  pb_attn_type :: string
  pb_alpha_drop :: real
  pb_proj_drop :: real
  pb_drop_path_rate :: real

record PoolingBlock_config =
  pbc_block :: EquiformerBlock_config
  pbc_pool_radius :: real
  pbc_pool_ratio :: real
  pbc_pool_layer :: FpsPool_config
  pbc_num_radial_basis :: int
  pbc_radial_basis_fn :: RadialBasis_config

text \<open>
  \<^verbatim>\<open>PoolingBlock.__init__\<close> (lines 187-225). \<^verbatim>\<open>pool_method\<close> is an optional string
  here because \<^verbatim>\<open>DownBlock\<close> holds one; line 214 asserts that it is a string.
\<close>

definition PoolingBlock_init :: "PoolingBlock_args \<Rightarrow> PoolingBlock_config result" where
  "PoolingBlock_init a =
     (if pb_irreps_src a \<noteq> pb_irreps_dst a then Inl (Raised NotImplementedError 196)
      else
        ebind (EquiformerBlock_init
                 \<lparr> eb_irreps_src = pb_irreps_src a,
                   eb_irreps_dst = pb_irreps_dst a,
                   eb_irreps_edge_attr = pb_irreps_edge_attr a,
                   eb_irreps_head = pb_irreps_head a,
                   eb_num_heads = pb_num_heads a,
                   eb_fc_neurons = pb_fc_neurons a,
                   eb_irreps_mlp_mid = pb_irreps_mlp_mid a,
                   eb_attn_type = pb_attn_type a,
                   eb_alpha_drop = pb_alpha_drop a,
                   eb_proj_drop = pb_proj_drop a,
                   eb_drop_path_rate = pb_drop_path_rate a,
                   eb_src_bias = False,
                   eb_dst_bias = True \<rparr>)
          (\<lambda>block.
             case pb_pool_method a of
               None \<Rightarrow> Inl (Raised AssertionError 214)
             | Some pool_method \<Rightarrow>
                 if pool_method \<noteq> ''fps''
                 then Inl (Raised (ValueError (''Unknown pooling method: '' @ pool_method)) 218)
                 else
                   (case pb_fc_neurons a of
                      [] \<Rightarrow> Inl (Raised AssertionError 221)
                    | num_radial_basis # _ \<Rightarrow>
                        Inr \<lparr> pbc_block = block,
                              pbc_pool_radius = pb_pool_radius a,
                              pbc_pool_ratio = pb_pool_ratio a,
                              pbc_pool_layer =
                                \<lparr> fps_ratio = pb_pool_ratio a,
                                  fps_random_start = (\<not> pb_deterministic a),
                                  fps_r = pb_pool_radius a,
                                  fps_max_num_neighbors = 1000 \<rparr>,
                              pbc_num_radial_basis = num_radial_basis,
                              pbc_radial_basis_fn =
                                \<lparr> rb_num_basis = num_radial_basis,
                                  rb_cutoff = pb_pool_radius a * 0.99,
                                  rb_offset = None,
                                  rb_soft_cutoff = None \<rparr> \<rparr>)))"

record RadiusGraphBlock_args =
  rg_irreps :: irreps
  rg_irreps_edge_attr :: irreps
  rg_irreps_head :: irreps
  rg_num_heads :: int
  rg_fc_neurons :: "int list"
  rg_radius :: real
  rg_n_layers :: int
  rg_irreps_mlp_mid :: mlp_mid
  rg_attn_type :: string
  rg_alpha_drop :: real
  rg_proj_drop :: real
  rg_drop_path_rate :: real

record RadiusGraphBlock_config =
  rgc_r :: real
  rgc_num_radial_basis :: int
  rgc_n_layers :: int
  rgc_radius_graph :: RadiusGraph_config
  rgc_blocks :: "EquiformerBlock_config list"
  rgc_radials :: "RadialBasis_config list"

text \<open>
  A list comprehension \<^verbatim>\<open>[C(...) for _ in range(k)]\<close> whose constructor call may raise:
  the first call that raises ends it.
\<close>

fun construct_times :: "nat \<Rightarrow> 'a result \<Rightarrow> 'a list result" where
  "construct_times 0 c = Inr []"
| "construct_times (Suc k) c =
     (case c of
        Inl e \<Rightarrow> Inl e
      | Inr v \<Rightarrow> (case construct_times k c of Inl e \<Rightarrow> Inl e | Inr vs \<Rightarrow> Inr (v # vs)))"

text \<open>\<^verbatim>\<open>RadiusGraphBlock.__init__\<close> (lines 274-311).\<close>

definition RadiusGraphBlock_init :: "RadiusGraphBlock_args \<Rightarrow> RadiusGraphBlock_config result" where
  "RadiusGraphBlock_init a =
     (case rg_fc_neurons a of
        [] \<Rightarrow> Inl (Raised AssertionError 281)
      | num_radial_basis # _ \<Rightarrow>
          if \<not> rg_n_layers a \<ge> 1 then Inl (Raised AssertionError 284)
          else
            ebind (construct_times (nat (rg_n_layers a))
                     (EquiformerBlock_init
                        \<lparr> eb_irreps_src = rg_irreps a,
                          eb_irreps_dst = rg_irreps a,
                          eb_irreps_edge_attr = rg_irreps_edge_attr a,
                          eb_irreps_head = rg_irreps_head a,
                          eb_num_heads = rg_num_heads a,
                          eb_fc_neurons = rg_fc_neurons a,
                          eb_irreps_mlp_mid = rg_irreps_mlp_mid a,
                          eb_attn_type = rg_attn_type a,
                          eb_alpha_drop = rg_alpha_drop a,
                          eb_proj_drop = rg_proj_drop a,
                          eb_drop_path_rate = rg_drop_path_rate a,
                          eb_src_bias = False,
                          eb_dst_bias = True \<rparr>))
              (\<lambda>blocks.
                 Inr \<lparr> rgc_r = rg_radius a,
                       rgc_num_radial_basis = num_radial_basis,
                       rgc_n_layers = rg_n_layers a,
                       rgc_radius_graph = \<lparr> rgr_r = rg_radius a, rgr_max_num_neighbors = 1000 \<rparr>,
                       rgc_blocks = blocks,
                       rgc_radials =
                         replicate (nat (rg_n_layers a))
                           \<lparr> rb_num_basis = num_radial_basis,
                             rb_cutoff = rg_radius a * 0.99,
                             rb_offset = None,
                             rb_soft_cutoff = None \<rparr> \<rparr>))"

record DownBlock_args =
  db_irreps :: irreps
  db_irreps_edge_attr :: irreps
  db_irreps_head :: irreps
  db_num_heads :: int
  db_fc_neurons :: "int list"
  db_init_radius :: real
  db_pool_ratio :: real
  db_n_scales :: int
  db_n_layers_per_scale :: int
  db_pool_method :: "string option"
  db_deterministic :: bool
  db_irreps_mlp_mid :: mlp_mid
  db_attn_type :: string
  db_alpha_drop :: real
  db_proj_drop :: real
  db_drop_path_rate :: real

text \<open>An element of \<^verbatim>\<open>DownBlock.layers\<close>.\<close>

datatype layer = Pooling PoolingBlock_config | RadiusGraph RadiusGraphBlock_config

fun is_pooling :: "layer \<Rightarrow> bool" where
  "is_pooling (Pooling b) = True"
| "is_pooling (RadiusGraph b) = False"

record DownBlock_config =
  radius_list :: "real list"
  layers :: "layer list"

text \<open>
  Lines 393-427, the rest of one iteration of the loop of \<^verbatim>\<open>DownBlock.__init__\<close> once
  \<^verbatim>\<open>radius\<close> is updated: the layers of one scale are appended to \<^verbatim>\<open>self.layers\<close>.
\<close>

definition DownBlock_scale :: "DownBlock_args \<Rightarrow> real \<Rightarrow> layer list \<Rightarrow> layer list result" where
  "DownBlock_scale a radius ls =
     ebind
       (case db_pool_method a of
          None \<Rightarrow> Inr ls
        | Some pool_method \<Rightarrow>
            ebind (PoolingBlock_init
                     \<lparr> pb_irreps_src = db_irreps a,
                       pb_irreps_dst = db_irreps a,
                       pb_irreps_edge_attr = db_irreps_edge_attr a,
                       pb_irreps_head = db_irreps_head a,
                       pb_num_heads = db_num_heads a,
                       pb_fc_neurons = db_fc_neurons a,
                       pb_pool_radius = radius,
                       pb_pool_ratio = db_pool_ratio a,
                       pb_pool_method = db_pool_method a,
                       pb_deterministic = db_deterministic a,
                       pb_irreps_mlp_mid = db_irreps_mlp_mid a,
                       pb_attn_type = db_attn_type a,
                       pb_alpha_drop = db_alpha_drop a,
                       pb_proj_drop = db_proj_drop a,
                       pb_drop_path_rate = db_drop_path_rate a \<rparr>)
              (\<lambda>b. Inr (ls @ [Pooling b])))
       (\<lambda>ls.
          let n_self_connecting_layers =
                db_n_layers_per_scale a - of_bool (db_pool_method a \<noteq> None)
          in if n_self_connecting_layers \<ge> 1
             then ebind (RadiusGraphBlock_init
                           \<lparr> rg_irreps = db_irreps a,
                             rg_irreps_edge_attr = db_irreps_edge_attr a,
                             rg_irreps_head = db_irreps_head a,
                             rg_num_heads = db_num_heads a,
                             rg_fc_neurons = db_fc_neurons a,
                             rg_radius = radius,
                             rg_n_layers = n_self_connecting_layers,
                             rg_irreps_mlp_mid = db_irreps_mlp_mid a,
                             rg_attn_type = db_attn_type a,
                             rg_alpha_drop = db_alpha_drop a,
                             rg_proj_drop = db_proj_drop a,
                             rg_drop_path_rate = db_drop_path_rate a \<rparr>)
                    (\<lambda>b. Inr (ls @ [RadiusGraph b]))
             else Inr ls)"

text \<open>
  The loop \<^verbatim>\<open>for s in range(self.n_scales)\<close> of \<^verbatim>\<open>DownBlock.__init__\<close> (lines 389-427),
  with the number of iterations left, the current \<^verbatim>\<open>radius\<close>, and the lists built so far.
  Line 390 divides by \<^verbatim>\<open>math.sqrt(self.pool_ratio)\<close>, and Python raises on a zero divisor.
\<close>

fun DownBlock_loop ::
  "DownBlock_args \<Rightarrow> nat \<Rightarrow> real \<Rightarrow> real list \<Rightarrow> layer list \<Rightarrow> (real list \<times> layer list) result" where
  "DownBlock_loop a 0 radius rl ls = Inr (rl, ls)"
| "DownBlock_loop a (Suc k) radius rl ls =
     (if sqrt (db_pool_ratio a) = 0 then Inl (Raised ZeroDivisionError 390)
      else
        let radius = radius / sqrt (db_pool_ratio a);
            rl = rl @ [radius]
        in case DownBlock_scale a radius ls of
             Inl e \<Rightarrow> Inl e
           | Inr ls \<Rightarrow> DownBlock_loop a k radius rl ls)"

text \<open>
  \<^verbatim>\<open>DownBlock.__init__\<close> (lines 367-427). \<^verbatim>\<open>math.sqrt\<close> at line 388 raises a
  \<^verbatim>\<open>ValueError\<close> on a negative argument.
\<close>

definition DownBlock_init :: "DownBlock_args \<Rightarrow> DownBlock_config result" where
  "DownBlock_init a =
     (if db_pool_ratio a = 1.0 \<and> \<not> (db_pool_method a = None)
      then Inl (Raised AssertionError 379)
      else if db_pool_ratio a \<noteq> 1.0 \<and> \<not> (db_pool_method a \<noteq> None)
      then Inl (Raised AssertionError 381)
      else if \<not> db_n_layers_per_scale a \<ge> 1
      then Inl (Raised AssertionError 382)
      else if db_pool_ratio a < 0
      then Inl (Raised (ValueError ''math domain error'') 388)
      else
        let radius = db_init_radius a * sqrt (db_pool_ratio a)
        in ebind (DownBlock_loop a (nat (db_n_scales a)) radius [] [])
             (\<lambda>(rl, ls). Inr \<lparr> radius_list = rl, layers = ls \<rparr>))"

record EdfExtractor_args =
  ex_irreps_inputs :: "irreps list"
  ex_fc_neurons_inputs :: "int list list"
  ex_irreps_emb :: irreps
  ex_irreps_edge_attr :: irreps
  ex_irreps_head :: irreps
  ex_num_heads :: int
  ex_fc_neurons :: "int list"
  ex_n_layers :: int
  ex_cutoffs :: "real list"
  ex_offsets :: "real list"
  ex_query_radius :: real
  ex_irreps_mlp_mid :: mlp_mid
  ex_attn_type :: string
  ex_alpha_drop :: real
  ex_proj_drop :: real
  ex_drop_path_rate :: real

record EdfExtractor_config =
  exc_n_scales :: nat
  exc_emb_dim :: int
  exc_pre_connect :: "RadiusConnect_config list"
  exc_pre_radial :: "RadialBasis_config list"
  exc_pre_layers :: "EquiformerBlock_config list"

text \<open>
  The loop \<^verbatim>\<open>for n in range(self.n_scales)\<close> of \<^verbatim>\<open>EdfExtractor.__init__\<close>
  (lines 491-516) over the remaining values of \<^verbatim>\<open>n\<close>, with the three module lists built
  so far. Line 493 reads
  \<^verbatim>\<open>RadiusConnect(r=self.cutoffs[n], offset=None, max_num_neighbors= 1000) # TODO: offset=None -> self.offsets[n]\<close>.
\<close>

fun EdfExtractor_loop ::
  "EdfExtractor_args \<Rightarrow> nat list
     \<Rightarrow> RadiusConnect_config list \<Rightarrow> RadialBasis_config list \<Rightarrow> EquiformerBlock_config list
     \<Rightarrow> (RadiusConnect_config list \<times> RadialBasis_config list \<times> EquiformerBlock_config list) result"
  where
  "EdfExtractor_loop a [] pc pr pl = Inr (pc, pr, pl)"
| "EdfExtractor_loop a (n # ns) pc pr pl =
     (let pc = pc @ [\<lparr> rc_r = ex_cutoffs a ! n, rc_offset = None, rc_max_num_neighbors = 1000 \<rparr>];
          fc = ex_fc_neurons_inputs a ! n
      in case fc of
           [] \<Rightarrow> Inl (Raised IndexError 497)
         | fc0 # _ \<Rightarrow>
             let pr = pr @ [\<lparr> rb_num_basis = fc0,
                              rb_cutoff = ex_cutoffs a ! n,
                              rb_offset = Some (ex_offsets a ! n),
                              rb_soft_cutoff = Some True \<rparr>]
             in (case EquiformerBlock_init
                       \<lparr> eb_irreps_src = ex_irreps_inputs a ! n,
                         eb_irreps_dst = ex_irreps_emb a,
                         eb_irreps_edge_attr = ex_irreps_edge_attr a,
                         eb_irreps_head = ex_irreps_head a,
                         eb_num_heads = ex_num_heads a,
                         eb_fc_neurons = fc,
                         eb_irreps_mlp_mid = ex_irreps_mlp_mid a,
                         eb_attn_type = ex_attn_type a,
                         eb_alpha_drop = ex_alpha_drop a,
                         eb_proj_drop = ex_proj_drop a,
                         eb_drop_path_rate = ex_drop_path_rate a,
                         eb_src_bias = False,
                         eb_dst_bias = True \<rparr> of
                  Inl e \<Rightarrow> Inl e
                | Inr block \<Rightarrow> EdfExtractor_loop a ns pc pr (pl @ [block])))"

text \<open>
  \<^verbatim>\<open>EdfExtractor.__init__\<close> (lines 470-549). The assertion at line 476 makes every index
  \<^verbatim>\<open>n\<close> of the loop a position of \<^verbatim>\<open>cutoffs\<close>, \<^verbatim>\<open>offsets\<close>,
  \<^verbatim>\<open>fc_neurons_inputs\<close> and \<^verbatim>\<open>irreps_inputs\<close>.
\<close>

definition EdfExtractor_init :: "EdfExtractor_args \<Rightarrow> EdfExtractor_config result" where
  "EdfExtractor_init a =
     (let n_scales = length (ex_irreps_inputs a) in
      if \<not> (length (ex_offsets a) = length (ex_cutoffs a)
             \<and> length (ex_cutoffs a) = length (ex_fc_neurons_inputs a)
             \<and> length (ex_fc_neurons_inputs a) = n_scales)
      then Inl (Raised AssertionError 476)
      else if \<not> ex_n_layers a \<ge> 1
      then Inl (Raised AssertionError 486)
      else
        ebind (EdfExtractor_loop a [0..<n_scales] [] [] [])
          (\<lambda>(pc, pr, pl).
             Inr \<lparr> exc_n_scales = n_scales,
                   exc_emb_dim = irreps_dim (ex_irreps_emb a),
                   exc_pre_connect = pc,
                   exc_pre_radial = pr,
                   exc_pre_layers = pl \<rparr>))"


section \<open>query\_model.py: the combined batch and scale index\<close>

text \<open>
  Index tensors hold 64-bit integers; they are modelled as unbounded integers, \<^verbatim>\<open>//\<close> as
  \<^verbatim>\<open>div\<close> and \<^verbatim>\<open>%\<close> as \<^verbatim>\<open>mod\<close>, which agree with torch on the non-negative
  values that occur here.

  Lines 167-168 of \<^verbatim>\<open>QueryModel.forward\<close>:
  \<^verbatim>\<open>
  query_scale = torch.arange(self.n_scales, ...)
  query_batch_n_scale = query_batch * query_scale.unsqueeze(-1) + query_scale.unsqueeze(-1) # (Ns, Nq)
  \<close>
  The result has one row for every scale and one column for every query.
\<close>

definition query_scale :: "int \<Rightarrow> int list" where
  "query_scale n_scales = [0..n_scales - 1]"

definition query_batch_n_scale :: "int \<Rightarrow> int list \<Rightarrow> int list list" where
  "query_batch_n_scale n_scales query_batch =
     map (\<lambda>s. map (\<lambda>b. b * s + s) query_batch) (query_scale n_scales)"

text \<open>
  The decoding of \<^verbatim>\<open>QueryModel._get_init_query_pos\<close>: line 112 reads the scale of a
  combined index as \<^verbatim>\<open>node_batch_n_scale % self.n_scales\<close>, lines 114 and 116 read its batch
  as \<^verbatim>\<open>node_batch_n_scale // self.n_scales\<close>.
\<close>

definition decode_scale :: "int \<Rightarrow> int \<Rightarrow> int" where
  "decode_scale n_scales combined = combined mod n_scales"

definition decode_batch :: "int \<Rightarrow> int \<Rightarrow> int" where
  "decode_batch n_scales combined = combined div n_scales"

text \<open>
  Lines 112-116 of \<^verbatim>\<open>_get_init_query_pos\<close>: the positions of the nodes that are kept, and
  the batch index of each of them (before the farthest-point sampling of line 118).
\<close>

definition top_scale_node_idx :: "int \<Rightarrow> int list \<Rightarrow> nat list" where
  "top_scale_node_idx n_scales node_batch_n_scale =
     filter (\<lambda>i. decode_scale n_scales (node_batch_n_scale ! i) = n_scales - 1)
       [0..<length node_batch_n_scale]"

definition init_query_batch :: "int \<Rightarrow> int list \<Rightarrow> bool \<Rightarrow> int list" where
  "init_query_batch n_scales node_batch_n_scale only_from_top_scale =
     (if only_from_top_scale
      then map (\<lambda>i. decode_batch n_scales (node_batch_n_scale ! i))
             (top_scale_node_idx n_scales node_batch_n_scale)
      else map (decode_batch n_scales) node_batch_n_scale)"


section \<open>The specification's reading of the forward passes\<close>

text \<open>
  The per-edge message as steps 1 to 3 of the Equiformer block are specified: the linear
  projections are applied to the layer-normalized features, and the projected source and
  destination rows are gathered at the ends of every edge and added. It is compared below
  with \<^const>\<open>EquiformerBlock_message\<close>, the message of the source.
\<close>

definition message_of_normalized ::
  "EquiformerBlock \<Rightarrow> tensor \<Rightarrow> tensor \<Rightarrow> nat list \<Rightarrow> nat list \<Rightarrow> tensor result" where
  "message_of_normalized blk node_input_src node_input_dst edge_src edge_dst =
     (let message_src = linear_src blk (norm_1_src blk node_input_src);
          message_dst = linear_dst blk (norm_1_dst blk node_input_dst)
      in ebind (index_rows 143 IndexError message_src edge_src) (\<lambda>gathered_src.
         ebind (index_rows 143 IndexError message_dst edge_dst) (\<lambda>gathered_dst.
         tensor_add 143 gathered_src gathered_dst)))"




section \<open>Concrete inputs\<close>


text \<open>
  Arguments of \<^verbatim>\<open>DownBlock\<close> with two scales and two layers per scale, for a given
  \<^verbatim>\<open>pool_ratio\<close> and \<^verbatim>\<open>pool_method\<close>: features \<^verbatim>\<open>4x0e+2x1o\<close>, two heads of
  \<^verbatim>\<open>2x0e+1x1o\<close>.
\<close>

definition down_args :: "real \<Rightarrow> string option \<Rightarrow> DownBlock_args" where
  "down_args ratio method =
     \<lparr> db_irreps = [(4, 0, 1), (2, 1, - 1)],
       db_irreps_edge_attr = [(1, 0, 1), (1, 1, - 1)],
       db_irreps_head = [(2, 0, 1), (1, 1, - 1)],
       db_num_heads = 2,
       db_fc_neurons = [8, 16],
       db_init_radius = 1,
       db_pool_ratio = ratio,
       db_n_scales = 2,
       db_n_layers_per_scale = 2,
       db_pool_method = method,
       db_deterministic = False,
       db_irreps_mlp_mid = MidFactor 3,
       db_attn_type = ''mlp'',
       db_alpha_drop = 0.1,
       db_proj_drop = 0.1,
       db_drop_path_rate = 0 \<rparr>"

text \<open>
  Arguments of \<^verbatim>\<open>PoolingBlock\<close> with source features \<^verbatim>\<open>4x0e+2x1o\<close> and a given
  destination signature.
\<close>

definition pool_args :: "irreps \<Rightarrow> PoolingBlock_args" where
  "pool_args dst =
     \<lparr> pb_irreps_src = [(4, 0, 1), (2, 1, - 1)],
       pb_irreps_dst = dst,
       pb_irreps_edge_attr = [(1, 0, 1), (1, 1, - 1)],
       pb_irreps_head = [(2, 0, 1), (1, 1, - 1)],
       pb_num_heads = 2,
       pb_fc_neurons = [8, 16],
       pb_pool_radius = 1,
       pb_pool_ratio = 0.5,
       pb_pool_method = Some ''fps'',
       pb_deterministic = False,
       pb_irreps_mlp_mid = MidFactor 3,
       pb_attn_type = ''mlp'',
       pb_alpha_drop = 0.1,
       pb_proj_drop = 0.1,
       pb_drop_path_rate = 0 \<rparr>"

text \<open>
  An Equiformer block on features \<^verbatim>\<open>1x0e\<close>: the layer norm of a single scalar channel
  subtracts the mean over the channel and so returns 0 (with its initial zero bias); the
  linear layers have weight 1 and bias 0.
\<close>

definition scalar_block :: EquiformerBlock where
  "scalar_block =
     \<lparr> norm_1_src = (\<lambda>t. map (map (\<lambda>v. 0)) t),
       norm_1_dst = (\<lambda>t. map (map (\<lambda>v. 0)) t),
       linear_src = (\<lambda>t. t),
       linear_dst = (\<lambda>t. t),
       ga = (\<lambda>message edge_dst edge_attr edge_scalars n_nodes_dst. replicate n_nodes_dst [0]),
       drop_path = None,
       norm_2 = (\<lambda>t batch. map (map (\<lambda>v. 0)) t),
       ffn = \<lparr> fctp_1 = (\<lambda>t attr. t), fctp_2 = (\<lambda>t attr. t), ffn_proj_drop = None \<rparr> \<rparr>"

text \<open>
  Arguments of \<^verbatim>\<open>EdfExtractor\<close> with two scales, \<^verbatim>\<open>cutoffs = [1.0, 2.0]\<close> and
  \<^verbatim>\<open>offsets = [0.5, 1.0]\<close>.
\<close>

definition extractor_args :: EdfExtractor_args where
  "extractor_args =
     \<lparr> ex_irreps_inputs = [[(4, 0, 1), (2, 1, - 1)], [(4, 0, 1), (2, 1, - 1)]],
       ex_fc_neurons_inputs = [[8, 16], [8, 16]],
       ex_irreps_emb = [(4, 0, 1), (2, 1, - 1)],
       ex_irreps_edge_attr = [(1, 0, 1), (1, 1, - 1)],
       ex_irreps_head = [(2, 0, 1), (1, 1, - 1)],
       ex_num_heads = 2,
       ex_fc_neurons = [8, 16],
       ex_n_layers = 1,
       ex_cutoffs = [1, 2],
       ex_offsets = [1 / 2, 1],
       ex_query_radius = 1,
       ex_irreps_mlp_mid = MidFactor 3,
       ex_attn_type = ''mlp'',
       ex_alpha_drop = 0.1,
       ex_proj_drop = 0.1,
       ex_drop_path_rate = 0 \<rparr>"



section \<open>Properties of the radial basis\<close>

lemma softplus_pos: "0 < softplus z"
proof (cases "z > 20")
  case True
  then show ?thesis by (simp add: softplus_def)
next
  case False
  have "1 < 1 + exp z" by simp
  then have "0 < ln (1 + exp z)" by (rule ln_gt_zero)
  with False show ?thesis by (simp add: softplus_def)
qed







section \<open>Properties of the constructors\<close>

lemma ebind_Inr [simp]: "ebind (Inr v) f = f v"
  by (simp add: ebind_def)

lemma ebind_Inl [simp]: "ebind (Inl e) f = Inl e"
  by (simp add: ebind_def)

lemma ebind_eq_Inr: "ebind m f = Inr y \<longleftrightarrow> (\<exists>v. m = Inr v \<and> f v = Inr y)"
  by (cases m) simp_all

lemma EquiformerBlock_init_ok:
  assumes "eb_num_heads a * irreps_dim (eb_irreps_head a) = irreps_dim (eb_irreps_dst a)"
    and "eb_attn_type a = ''mlp''"
  shows "EquiformerBlock_init a =
           Inr \<lparr> ebc_args = a, ebc_irreps_emb = eb_irreps_dst a,
                 ebc_drop_path = (if eb_drop_path_rate a > 0 then Some (eb_drop_path_rate a)
                                  else None) \<rparr>"
  using assms by (simp add: EquiformerBlock_init_def)

lemma EquiformerBlock_init_error_line:
  assumes "EquiformerBlock_init a = Inl (Raised x l)"
  shows "l \<noteq> 196"
  using assms by (auto simp: EquiformerBlock_init_def Let_def split: if_splits)

lemma PoolingBlock_init_mismatch:
  "pb_irreps_src a \<noteq> pb_irreps_dst a \<Longrightarrow> PoolingBlock_init a = Inl (Raised NotImplementedError 196)"
  by (simp add: PoolingBlock_init_def)

lemma PoolingBlock_init_past_check:
  assumes "pb_irreps_src a = pb_irreps_dst a"
  shows "PoolingBlock_init a \<noteq> Inl (Raised x 196)"
proof
  assume e: "PoolingBlock_init a = Inl (Raised x 196)"
  let ?eb = "EquiformerBlock_init
                 \<lparr> eb_irreps_src = pb_irreps_src a,
                   eb_irreps_dst = pb_irreps_dst a,
                   eb_irreps_edge_attr = pb_irreps_edge_attr a,
                   eb_irreps_head = pb_irreps_head a,
                   eb_num_heads = pb_num_heads a,
                   eb_fc_neurons = pb_fc_neurons a,
                   eb_irreps_mlp_mid = pb_irreps_mlp_mid a,
                   eb_attn_type = pb_attn_type a,
                   eb_alpha_drop = pb_alpha_drop a,
                   eb_proj_drop = pb_proj_drop a,
                   eb_drop_path_rate = pb_drop_path_rate a,
                   eb_src_bias = False,
                   eb_dst_bias = True \<rparr>"
  show False
  proof (cases ?eb)
    case (Inl err)
    with e assms have "?eb = Inl (Raised x 196)"
      by (simp add: PoolingBlock_init_def)
    then show False using EquiformerBlock_init_error_line by blast
  next
    case (Inr block)
    with e assms show False
      by (simp add: PoolingBlock_init_def split: option.splits if_splits list.splits)
  qed
qed

lemma PoolingBlock_init_ok:
  assumes "pb_irreps_src a = pb_irreps_dst a"
    and "pb_num_heads a * irreps_dim (pb_irreps_head a) = irreps_dim (pb_irreps_dst a)"
    and "pb_attn_type a = ''mlp''"
    and "pb_pool_method a = Some ''fps''"
    and "pb_fc_neurons a \<noteq> []"
  shows "\<exists>cfg. PoolingBlock_init a = Inr cfg"
  using assms
  by (cases "pb_fc_neurons a") (simp_all add: PoolingBlock_init_def EquiformerBlock_init_ok)

lemma construct_times_Inr: "construct_times k (Inr v) = Inr (replicate k v)"
  by (induction k) simp_all

lemma RadiusGraphBlock_init_ok:
  assumes "rg_num_heads a * irreps_dim (rg_irreps_head a) = irreps_dim (rg_irreps a)"
    and "rg_attn_type a = ''mlp''"
    and "rg_fc_neurons a \<noteq> []"
    and "1 \<le> rg_n_layers a"
  shows "\<exists>cfg. RadiusGraphBlock_init a = Inr cfg"
  using assms
  by (cases "rg_fc_neurons a")
    (simp_all add: RadiusGraphBlock_init_def EquiformerBlock_init_ok construct_times_Inr)

lemma DownBlock_scale_ok:
  assumes "db_num_heads a * irreps_dim (db_irreps_head a) = irreps_dim (db_irreps a)"
    and "db_attn_type a = ''mlp''"
    and "db_fc_neurons a \<noteq> []"
    and "db_pool_method a = None \<or> db_pool_method a = Some ''fps''"
  shows "\<exists>ls'. DownBlock_scale a radius ls = Inr ls'"
proof -
  let ?pb = "\<lparr> pb_irreps_src = db_irreps a,
                       pb_irreps_dst = db_irreps a,
                       pb_irreps_edge_attr = db_irreps_edge_attr a,
                       pb_irreps_head = db_irreps_head a,
                       pb_num_heads = db_num_heads a,
                       pb_fc_neurons = db_fc_neurons a,
                       pb_pool_radius = radius,
                       pb_pool_ratio = db_pool_ratio a,
                       pb_pool_method = db_pool_method a,
                       pb_deterministic = db_deterministic a,
                       pb_irreps_mlp_mid = db_irreps_mlp_mid a,
                       pb_attn_type = db_attn_type a,
                       pb_alpha_drop = db_alpha_drop a,
                       pb_proj_drop = db_proj_drop a,
                       pb_drop_path_rate = db_drop_path_rate a \<rparr>"
  let ?rg = "\<lambda>k. \<lparr> rg_irreps = db_irreps a,
                             rg_irreps_edge_attr = db_irreps_edge_attr a,
                             rg_irreps_head = db_irreps_head a,
                             rg_num_heads = db_num_heads a,
                             rg_fc_neurons = db_fc_neurons a,
                             rg_radius = radius,
                             rg_n_layers = k,
                             rg_irreps_mlp_mid = db_irreps_mlp_mid a,
                             rg_attn_type = db_attn_type a,
                             rg_alpha_drop = db_alpha_drop a,
                             rg_proj_drop = db_proj_drop a,
                             rg_drop_path_rate = db_drop_path_rate a \<rparr>"
  have rg: "\<exists>cfg. RadiusGraphBlock_init (?rg k) = Inr cfg" if "1 \<le> k" for k
    using assms that by (intro RadiusGraphBlock_init_ok) simp_all
  have second: "\<exists>ls'. (let n = db_n_layers_per_scale a - of_bool (db_pool_method a \<noteq> None)
          in if n \<ge> 1
             then ebind (RadiusGraphBlock_init (?rg n)) (\<lambda>b. Inr (l @ [RadiusGraph b]))
             else Inr l) = Inr ls'" for l
  proof (cases "db_n_layers_per_scale a - of_bool (db_pool_method a \<noteq> None) \<ge> 1")
    case True
    from rg [OF True] obtain cfg where
      "RadiusGraphBlock_init (?rg (db_n_layers_per_scale a - of_bool (db_pool_method a \<noteq> None))) = Inr cfg"
      by blast
    with True show ?thesis by (simp add: Let_def)
  next
    case False
    then show ?thesis by (simp add: Let_def)
  qed
  show ?thesis
  proof (cases "db_pool_method a")
    case None
    with second [of ls] show ?thesis
      by (simp add: DownBlock_scale_def)
  next
    case (Some m)
    with assms have m: "db_pool_method a = Some ''fps''" by simp
    have "\<exists>cfg. PoolingBlock_init ?pb = Inr cfg"
      using assms m by (intro PoolingBlock_init_ok) simp_all
    then obtain cfg where "PoolingBlock_init ?pb = Inr cfg" by blast
    with second [of "ls @ [Pooling cfg]"] m show ?thesis
      by (simp add: DownBlock_scale_def)
  qed
qed

lemma DownBlock_scale_no_pooling:
  assumes "db_pool_method a = None" and "DownBlock_scale a radius ls = Inr ls'"
  shows "list_ex is_pooling ls' = list_ex is_pooling ls"
  using assms
  by (auto simp: DownBlock_scale_def Let_def ebind_eq_Inr split: if_splits)

lemma DownBlock_loop_no_pooling:
  assumes "db_pool_method a = None" and "DownBlock_loop a k radius rl ls = Inr (rl', ls')"
  shows "list_ex is_pooling ls' = list_ex is_pooling ls"
  using assms(2)
proof (induction k arbitrary: radius rl ls)
  case 0
  then show ?case by simp
next
  case (Suc k)
  from Suc.prems obtain ls1 where
    step: "DownBlock_scale a (radius / sqrt (db_pool_ratio a)) ls = Inr ls1"
    and rest: "DownBlock_loop a k (radius / sqrt (db_pool_ratio a))
                 (rl @ [radius / sqrt (db_pool_ratio a)]) ls1 = Inr (rl', ls')"
    by (auto simp: Let_def split: if_splits sum.splits)
  from Suc.IH [OF rest] DownBlock_scale_no_pooling [OF assms(1) step]
  show ?case by simp
qed

lemma DownBlock_loop_ok:
  assumes "db_num_heads a * irreps_dim (db_irreps_head a) = irreps_dim (db_irreps a)"
    and "db_attn_type a = ''mlp''"
    and "db_fc_neurons a \<noteq> []"
    and "db_pool_method a = None \<or> db_pool_method a = Some ''fps''"
    and "0 < db_pool_ratio a"
  shows "\<exists>res. DownBlock_loop a k radius rl ls = Inr res"
proof (induction k arbitrary: radius rl ls)
  case 0
  show ?case by simp
next
  case (Suc k)
  from assms(5) have nz: "sqrt (db_pool_ratio a) \<noteq> 0" by simp
  from DownBlock_scale_ok [OF assms(1-4)] obtain ls1 where
    "DownBlock_scale a (radius / sqrt (db_pool_ratio a)) ls = Inr ls1" by blast
  with nz Suc.IH show ?case by (simp add: Let_def)
qed

lemma DownBlock_init_ok:
  assumes "db_num_heads a * irreps_dim (db_irreps_head a) = irreps_dim (db_irreps a)"
    and "db_attn_type a = ''mlp''"
    and "db_fc_neurons a \<noteq> []"
    and "(db_pool_ratio a = 1 \<and> db_pool_method a = None)
         \<or> (db_pool_ratio a \<noteq> 1 \<and> db_pool_method a = Some ''fps'')"
    and "0 < db_pool_ratio a"
    and "1 \<le> db_n_layers_per_scale a"
  shows "\<exists>cfg. DownBlock_init a = Inr cfg"
proof -
  from assms(4) have m: "db_pool_method a = None \<or> db_pool_method a = Some ''fps''" by blast
  from DownBlock_loop_ok [OF assms(1-3) m assms(5)] obtain rl' ls' where
    "DownBlock_loop a (nat (db_n_scales a)) (db_init_radius a * sqrt (db_pool_ratio a)) [] []
       = Inr (rl', ls')"
    by (metis surj_pair)
  with assms(4-6) show ?thesis
    by (auto simp: DownBlock_init_def Let_def)
qed

lemma EquiformerBlock_init_lines:
  assumes "EquiformerBlock_init a = Inl (Raised x l)"
  shows "l \<in> {88, 102, 114, 116, 118}"
  using assms by (auto simp: EquiformerBlock_init_def Let_def split: if_splits)

lemma PoolingBlock_init_lines:
  assumes "PoolingBlock_init a = Inl (Raised x l)"
  shows "l \<in> {196, 88, 102, 114, 116, 118, 214, 218, 221}"
proof (cases "pb_irreps_src a = pb_irreps_dst a")
  case False
  with assms show ?thesis by (simp add: PoolingBlock_init_def)
next
  case True
  let ?eb = "EquiformerBlock_init
                 \<lparr> eb_irreps_src = pb_irreps_src a,
                   eb_irreps_dst = pb_irreps_dst a,
                   eb_irreps_edge_attr = pb_irreps_edge_attr a,
                   eb_irreps_head = pb_irreps_head a,
                   eb_num_heads = pb_num_heads a,
                   eb_fc_neurons = pb_fc_neurons a,
                   eb_irreps_mlp_mid = pb_irreps_mlp_mid a,
                   eb_attn_type = pb_attn_type a,
                   eb_alpha_drop = pb_alpha_drop a,
                   eb_proj_drop = pb_proj_drop a,
                   eb_drop_path_rate = pb_drop_path_rate a,
                   eb_src_bias = False,
                   eb_dst_bias = True \<rparr>"
  show ?thesis
  proof (cases ?eb)
    case (Inl err)
    with assms True have "?eb = Inl (Raised x l)"
      by (simp add: PoolingBlock_init_def)
    from EquiformerBlock_init_lines [OF this] show ?thesis by blast
  next
    case (Inr block)
    with assms True show ?thesis
      by (auto simp: PoolingBlock_init_def split: option.splits if_splits list.splits)
  qed
qed

lemma construct_times_Inl: "construct_times k c = Inl e \<Longrightarrow> c = Inl e"
  by (induction k) (auto split: sum.splits)

lemma RadiusGraphBlock_init_lines:
  assumes "RadiusGraphBlock_init a = Inl (Raised x l)"
  shows "l \<in> {281, 284, 88, 102, 114, 116, 118}"
proof (cases "rg_fc_neurons a")
  case Nil
  with assms show ?thesis by (simp add: RadiusGraphBlock_init_def)
next
  case (Cons nb rest)
  show ?thesis
  proof (cases "1 \<le> rg_n_layers a")
    case False
    with assms Cons show ?thesis by (simp add: RadiusGraphBlock_init_def)
  next
    case True
    let ?eb = "EquiformerBlock_init
                        \<lparr> eb_irreps_src = rg_irreps a,
                          eb_irreps_dst = rg_irreps a,
                          eb_irreps_edge_attr = rg_irreps_edge_attr a,
                          eb_irreps_head = rg_irreps_head a,
                          eb_num_heads = rg_num_heads a,
                          eb_fc_neurons = rg_fc_neurons a,
                          eb_irreps_mlp_mid = rg_irreps_mlp_mid a,
                          eb_attn_type = rg_attn_type a,
                          eb_alpha_drop = rg_alpha_drop a,
                          eb_proj_drop = rg_proj_drop a,
                          eb_drop_path_rate = rg_drop_path_rate a,
                          eb_src_bias = False,
                          eb_dst_bias = True \<rparr>"
    from assms Cons True have "construct_times (nat (rg_n_layers a)) ?eb = Inl (Raised x l)"
      by (cases "construct_times (nat (rg_n_layers a)) ?eb")
        (simp_all add: RadiusGraphBlock_init_def)
    from construct_times_Inl [OF this] EquiformerBlock_init_lines show ?thesis by blast
  qed
qed

lemma DownBlock_scale_lines:
  assumes "DownBlock_scale a radius ls = Inl (Raised x l)"
  shows "l \<in> {196, 214, 218, 221, 281, 284, 88, 102, 114, 116, 118}"
proof -
  have pb: "l \<in> {196, 214, 218, 221, 281, 284, 88, 102, 114, 116, 118}"
    if "PoolingBlock_init p = Inl (Raised x l)" for p
    using PoolingBlock_init_lines [OF that] by auto
  have rg: "l \<in> {196, 214, 218, 221, 281, 284, 88, 102, 114, 116, 118}"
    if "RadiusGraphBlock_init r = Inl (Raised x l)" for r
    using RadiusGraphBlock_init_lines [OF that] by auto
  from assms show ?thesis
    unfolding DownBlock_scale_def Let_def ebind_def
    by (auto split: option.splits sum.splits if_splits dest: pb rg)
qed

lemma DownBlock_loop_lines:
  assumes "DownBlock_loop a k radius rl ls = Inl (Raised x l)"
  shows "l \<in> {390, 196, 214, 218, 221, 281, 284, 88, 102, 114, 116, 118}"
  using assms
proof (induction k arbitrary: radius rl ls)
  case 0
  then show ?case by simp
next
  case (Suc k)
  show ?case
  proof (cases "sqrt (db_pool_ratio a) = 0")
    case True
    with Suc.prems show ?thesis by simp
  next
    case False
    show ?thesis
    proof (cases "DownBlock_scale a (radius / sqrt (db_pool_ratio a)) ls")
      case (Inl e)
      with Suc.prems False
      have "DownBlock_scale a (radius / sqrt (db_pool_ratio a)) ls = Inl (Raised x l)"
        by (simp add: Let_def)
      from DownBlock_scale_lines [OF this] show ?thesis by auto
    next
      case (Inr ls1)
      with Suc.prems False
      have "DownBlock_loop a k (radius / sqrt (db_pool_ratio a))
              (rl @ [radius / sqrt (db_pool_ratio a)]) ls1 = Inl (Raised x l)"
        by (simp add: Let_def)
      from Suc.IH [OF this] show ?thesis .
    qed
  qed
qed

text \<open>
  Claim C8. Constructing a \<open>PoolingBlock\<close> whose source signature differs from its
  destination signature raises \<open>NotImplementedError\<close> at line 196 of the constructor;
  when the two signatures are equal, nothing is raised at that line: the constructor goes on,
  and whatever it returns or raises comes from a later statement.
\<close>

theorem PoolingBlock_irreps_check:
  "(pb_irreps_src a \<noteq> pb_irreps_dst a
      \<longrightarrow> PoolingBlock_init a = Inl (Raised NotImplementedError 196))
   \<and> (pb_irreps_src a = pb_irreps_dst a
      \<longrightarrow> (\<forall>x. PoolingBlock_init a \<noteq> Inl (Raised x 196)))"
  using PoolingBlock_init_mismatch PoolingBlock_init_past_check by blast

theorem PoolingBlock_irreps_check_witness:
  "pb_irreps_src (pool_args [(10, 0, 1)]) \<noteq> pb_irreps_dst (pool_args [(10, 0, 1)])
   \<and> PoolingBlock_init (pool_args [(10, 0, 1)]) = Inl (Raised NotImplementedError 196)
   \<and> pb_irreps_src (pool_args [(4, 0, 1), (2, 1, - 1)])
       = pb_irreps_dst (pool_args [(4, 0, 1), (2, 1, - 1)])
   \<and> PoolingBlock_init (pool_args [(4, 0, 1), (2, 1, - 1)])
       \<noteq> Inl (Raised NotImplementedError 196)
   \<and> isl (PoolingBlock_init (pool_args [(4, 0, 1), (2, 1, - 1)])) = False"
proof -
  have ok: "\<exists>cfg. PoolingBlock_init (pool_args [(4, 0, 1), (2, 1, - 1)]) = Inr cfg"
    by (rule PoolingBlock_init_ok) (simp_all add: pool_args_def irreps_dim_def)
  show ?thesis
    using PoolingBlock_irreps_check [of "pool_args [(10, 0, 1)]"]
      PoolingBlock_irreps_check [of "pool_args [(4, 0, 1), (2, 1, - 1)]"] ok
    by (auto simp: pool_args_def)
qed

lemma DownBlock_init_no_pooling:
  assumes "db_pool_method a = None" and "DownBlock_init a = Inr cfg"
  shows "\<not> list_ex is_pooling (layers cfg)"
proof -
  from assms(2) obtain rl ls where
    loop: "DownBlock_loop a (nat (db_n_scales a))
             (db_init_radius a * sqrt (db_pool_ratio a)) [] [] = Inr (rl, ls)"
    and cfg: "cfg = \<lparr> radius_list = rl, layers = ls \<rparr>"
    by (auto simp: DownBlock_init_def Let_def ebind_eq_Inr split: if_splits)
  from DownBlock_loop_no_pooling [OF assms(1) loop] cfg show ?thesis by simp
qed

lemma DownBlock_init_lines:
  assumes "DownBlock_init a = Inl (Raised x l)"
    and "\<not> (db_pool_ratio a = 1 \<and> db_pool_method a \<noteq> None)"
  shows "l \<noteq> 379"
proof -
  let ?loop = "DownBlock_loop a (nat (db_n_scales a))
                 (db_init_radius a * sqrt (db_pool_ratio a)) [] []"
  show ?thesis
  proof (cases ?loop)
    case (Inl e)
    with assms have "l \<in> {381, 382, 388} \<or> ?loop = Inl (Raised x l)"
      by (auto simp: DownBlock_init_def Let_def split: if_splits)
    with DownBlock_loop_lines [of a _ _ "[]" "[]" x l] show ?thesis by auto
  next
    case (Inr res)
    with assms show ?thesis
      by (cases res) (auto simp: DownBlock_init_def Let_def split: if_splits)
  qed
qed

text \<open>
  Claim C7. With \<open>pool_ratio = 1\<close>, constructing a \<open>DownBlock\<close> with a pooling method
  fails in the constructor, at the assertion of line 379; with the pooling method unset,
  nothing is raised at that line, and a constructed block has no \<open>PoolingBlock\<close> among
  its layers.
\<close>

theorem DownBlock_pool_ratio_one:
  assumes "db_pool_ratio a = 1"
  shows "(db_pool_method a \<noteq> None \<longrightarrow> DownBlock_init a = Inl (Raised AssertionError 379))
       \<and> (db_pool_method a = None \<longrightarrow>
            (\<forall>x. DownBlock_init a \<noteq> Inl (Raised x 379))
            \<and> (\<forall>cfg. DownBlock_init a = Inr cfg \<longrightarrow> \<not> list_ex is_pooling (layers cfg)))"
proof -
  have "DownBlock_init a = Inl (Raised AssertionError 379)" if "db_pool_method a \<noteq> None"
    using assms that by (simp add: DownBlock_init_def)
  moreover have "DownBlock_init a \<noteq> Inl (Raised x 379)" if "db_pool_method a = None" for x
    using DownBlock_init_lines [of a x 379] that by auto
  moreover have "\<not> list_ex is_pooling (layers cfg)"
    if "db_pool_method a = None" "DownBlock_init a = Inr cfg" for cfg
    using DownBlock_init_no_pooling that by blast
  ultimately show ?thesis by blast
qed

theorem DownBlock_pool_ratio_one_witness:
  "db_pool_ratio (down_args 1 (Some ''fps'')) = 1
   \<and> db_pool_method (down_args 1 (Some ''fps'')) \<noteq> None
   \<and> DownBlock_init (down_args 1 (Some ''fps'')) = Inl (Raised AssertionError 379)
   \<and> db_pool_ratio (down_args 1 None) = 1
   \<and> db_pool_method (down_args 1 None) = None
   \<and> (\<exists>cfg. DownBlock_init (down_args 1 None) = Inr cfg
          \<and> \<not> list_ex is_pooling (layers cfg))"
proof -
  have "\<exists>cfg. DownBlock_init (down_args 1 None) = Inr cfg"
    by (rule DownBlock_init_ok) (simp_all add: down_args_def irreps_dim_def)
  then obtain cfg where cfg: "DownBlock_init (down_args 1 None) = Inr cfg" by blast
  have r1: "db_pool_ratio (down_args 1 (Some ''fps'')) = 1"
    and r2: "db_pool_ratio (down_args 1 None) = 1"
    and m1: "db_pool_method (down_args 1 (Some ''fps'')) \<noteq> None"
    and m2: "db_pool_method (down_args 1 None) = None"
    by (simp_all add: down_args_def)
  from DownBlock_pool_ratio_one [OF r1] m1
  have e: "DownBlock_init (down_args 1 (Some ''fps'')) = Inl (Raised AssertionError 379)"
    by blast
  from DownBlock_pool_ratio_one [OF r2] m2 cfg
  have "\<not> list_ex is_pooling (layers cfg)" by blast
  with cfg r1 r2 m1 m2 e show ?thesis by blast
qed


section \<open>Properties of the forward passes\<close>





lemma expand_zero_features:
  "expand l (zero_features ex) n (emb_dim ex) = Inr (replicate n (replicate (emb_dim ex) 0))"
  by (simp add: expand_def zero_features_def zeros_row_def)










lemma scale_output_zero_destination:
  "scale_output ex qc qb nf nc nb (n, connect, radial, lay) =
     ebind (list_get 562 nc n) (\<lambda>coord_n.
     ebind (list_get 563 nb n) (\<lambda>batch_n.
     case connect coord_n batch_n qc qb of (edge_src, edge_dst) \<Rightarrow>
     ebind (index_rows 566 RuntimeError coord_n edge_src) (\<lambda>sel_src.
     ebind (index_rows 566 RuntimeError qc edge_dst) (\<lambda>sel_dst.
     ebind (tensor_sub 566 sel_src sel_dst) (\<lambda>edge_vec.
     ebind (list_get 572 nf n) (\<lambda>feature_n.
       EquiformerBlock_forward lay feature_n
         (replicate (length qc) (replicate (emb_dim ex) 0)) qb
         edge_src edge_dst (spherical_harmonics ex edge_vec) (radial (row_norms edge_vec))))))))"
  by (simp add: scale_output_def Let_def expand_zero_features)

lemma scale_output_own_scale_only:
  assumes "list_get 562 nc n = list_get 562 nc' n"
    and "list_get 563 nb n = list_get 563 nb' n"
    and "list_get 572 nf n = list_get 572 nf' n"
  shows "scale_output ex qc qb nf nc nb (n, connect, radial, lay)
         = scale_output ex qc qb nf' nc' nb' (n, connect, radial, lay)"
  using assms by (simp add: scale_output_def)

lemma EquiformerBlock_message_of_raw_inputs:
  "EquiformerBlock_message blk node_input_src node_input_dst edge_src edge_dst =
     ebind (index_rows 143 IndexError (linear_src blk node_input_src) edge_src) (\<lambda>gathered_src.
     ebind (index_rows 143 IndexError (linear_dst blk node_input_dst) edge_dst) (\<lambda>gathered_dst.
     tensor_add 143 gathered_src gathered_dst))"
  by (simp add: EquiformerBlock_message_def)

text \<open>
  Claim C1 (not met by the source). The claim: the per-edge message is the sum of the
  projections of the layer-normalized source and destination features. In the source the
  results of \<open>norm_1_src\<close> and \<open>norm_1_dst\<close> are overwritten at lines 138 and 141, and
  the projections are applied to the raw inputs: on the block \<open>scalar_block\<close>, source
  feature 1, destination feature 2 and one edge, the message is 3, where the claim gives 0.
\<close>

theorem EquiformerBlock_message_skips_norm:
  "EquiformerBlock_message scalar_block [[1]] [[2]] [0] [0] = Inr [[3]]
   \<and> message_of_normalized scalar_block [[1]] [[2]] [0] [0] = Inr [[0]]"
  by (simp add: EquiformerBlock_message_def message_of_normalized_def scalar_block_def
      index_rows_def tensor_add_def)

lemma EdfExtractor_loop_pre_connect:
  assumes "EdfExtractor_loop a ns pc pr pl = Inr (pc', pr', pl')"
  shows "pc' = pc @ map (\<lambda>n. \<lparr> rc_r = ex_cutoffs a ! n, rc_offset = None,
                                 rc_max_num_neighbors = 1000 \<rparr>) ns"
  using assms
proof (induction ns arbitrary: pc pr pl)
  case Nil
  then show ?case by simp
next
  case (Cons n ns)
  from Cons.prems obtain pr1 pl1 where
    "EdfExtractor_loop a ns
       (pc @ [\<lparr> rc_r = ex_cutoffs a ! n, rc_offset = None, rc_max_num_neighbors = 1000 \<rparr>])
       pr1 pl1 = Inr (pc', pr', pl')"
    by (auto simp: Let_def split: list.splits sum.splits)
  from Cons.IH [OF this] show ?case by simp
qed

lemma EdfExtractor_init_pre_connect:
  assumes "EdfExtractor_init a = Inr cfg"
  shows "exc_pre_connect cfg =
           map (\<lambda>c. \<lparr> rc_r = c, rc_offset = None, rc_max_num_neighbors = 1000 \<rparr>) (ex_cutoffs a)"
proof -
  from assms obtain pc pr pl where
    loop: "EdfExtractor_loop a [0..<length (ex_irreps_inputs a)] [] [] [] = Inr (pc, pr, pl)"
    and cfg: "exc_pre_connect cfg = pc"
    and len: "length (ex_cutoffs a) = length (ex_irreps_inputs a)"
    by (auto simp: EdfExtractor_init_def Let_def ebind_eq_Inr split: if_splits)
  from EdfExtractor_loop_pre_connect [OF loop] cfg len
  have "exc_pre_connect cfg =
          map (\<lambda>n. \<lparr> rc_r = ex_cutoffs a ! n, rc_offset = None, rc_max_num_neighbors = 1000 \<rparr>)
            [0..<length (ex_cutoffs a)]"
    by simp
  also have "\<dots> = map (\<lambda>c. \<lparr> rc_r = c, rc_offset = None, rc_max_num_neighbors = 1000 \<rparr>)
                     (map (\<lambda>n. ex_cutoffs a ! n) [0..<length (ex_cutoffs a)])"
    by (simp add: o_def)
  finally show ?thesis by (simp add: map_nth)
qed

text \<open>
  Claim C2 (not met by the source). The claim: the Radius Connect of scale \<open>n\<close> is built
  with \<open>cutoffs[n]\<close> and \<open>offsets[n]\<close>. The source passes \<open>offset=None\<close> (line 493, with
  a TODO that names \<open>self.offsets[n]\<close>): for offsets 0.5 and 1.0 both Radius Connects
  are built without an offset; only the radial layers receive the offsets.
\<close>

theorem EdfExtractor_init_offset_unused:
  "ex_offsets extractor_args = [1 / 2, 1]
   \<and> map_sum id exc_pre_connect (EdfExtractor_init extractor_args) =
       Inr [\<lparr> rc_r = 1, rc_offset = None, rc_max_num_neighbors = 1000 \<rparr>,
            \<lparr> rc_r = 2, rc_offset = None, rc_max_num_neighbors = 1000 \<rparr>]
   \<and> map_sum id (map rb_offset \<circ> exc_pre_radial) (EdfExtractor_init extractor_args) =
       Inr [Some (1 / 2), Some 1]"
  by (simp add: extractor_args_def EdfExtractor_init_def EquiformerBlock_init_def
      irreps_dim_def Let_def upt_rec numeral_2_eq_2)

text \<open>
  Claim C3 (not met by the source). The claim: the combined index of a query of batch \<open>b\<close>
  at scale \<open>s\<close> decodes to \<open>b\<close> by \<open>// n_scales\<close> and to \<open>s\<close> by \<open>% n_scales\<close>. The
  source encodes \<open>b * s + s\<close>: with three scales, the query of batch 2 gets the index 3 at
  scale 1, which decodes to batch 1 and scale 0.
\<close>

theorem query_batch_n_scale_not_decodable:
  "query_batch_n_scale 3 [2] = [[0], [3], [6]]
   \<and> decode_batch 3 (query_batch_n_scale 3 [2] ! 1 ! 0) = 1
   \<and> decode_scale 3 (query_batch_n_scale 3 [2] ! 1 ! 0) = 0"
  by code_simp

lemma query_batch_n_scale_nth:
  assumes "0 \<le> s" "s < n" "q < length query_batch"
  shows "query_batch_n_scale n query_batch ! nat s ! q = (query_batch ! q + 1) * s"
proof -
  from assms have "[0..n - 1] ! nat s = s"
    by simp
  moreover from assms have "nat s < length [0..n - 1]" by simp
  ultimately show ?thesis
    using assms by (simp add: query_batch_n_scale_def query_scale_def algebra_simps)
qed

end
